theory Spec2Isabelle
  imports Complex_Main
begin

section \<open>Scalars, vectors and transforms\<close>

text \<open>
  The anchor solver of \<^verbatim>\<open>cordeAnchor.cpp\<close> works on Bullet's linear-math types.
  \<^verbatim>\<open>btScalar\<close> is taken as an exact real number: rounding, infinities and NaN of the
  machine type are not part of this development, and \<open>1 / 0\<close> is \<open>0\<close> in HOL where the
  machine gives an infinity, so no statement below reads a computed value at \<open>dt = 0\<close>.
\<close>

type_synonym btScalar = real

datatype btVector3 = btVector3 (getX: btScalar) (getY: btScalar) (getZ: btScalar)

instantiation btVector3 :: real_vector
begin

definition zero_btVector3 :: btVector3 where
  "zero_btVector3 = btVector3 0 0 0"

definition plus_btVector3 :: "btVector3 \<Rightarrow> btVector3 \<Rightarrow> btVector3" where
  "plus_btVector3 u v = btVector3 (getX u + getX v) (getY u + getY v) (getZ u + getZ v)"

definition minus_btVector3 :: "btVector3 \<Rightarrow> btVector3 \<Rightarrow> btVector3" where
  "minus_btVector3 u v = btVector3 (getX u - getX v) (getY u - getY v) (getZ u - getZ v)"

definition uminus_btVector3 :: "btVector3 \<Rightarrow> btVector3" where
  "uminus_btVector3 v = btVector3 (- getX v) (- getY v) (- getZ v)"

definition scaleR_btVector3 :: "real \<Rightarrow> btVector3 \<Rightarrow> btVector3" where
  "scaleR_btVector3 s v = btVector3 (s * getX v) (s * getY v) (s * getZ v)"

instance
  by standard
    (simp_all add: zero_btVector3_def plus_btVector3_def minus_btVector3_def
      uminus_btVector3_def scaleR_btVector3_def algebra_simps)

end

text \<open>
  Modelled from the spec: \<^verbatim>\<open>btVector3\<close> and \<^verbatim>\<open>btMatrix3x3\<close> (Bullet's linear math, not
  under src/) are the spec's Vec3 and the rotation part of its Transform, with the usual
  componentwise operations. \<^verbatim>\<open>v * s\<close> and \<^verbatim>\<open>s * v\<close> of the source are both written
  \<open>s *\<^sub>R v\<close>; \<^verbatim>\<open>u + v\<close>, \<^verbatim>\<open>u - v\<close> and \<^verbatim>\<open>-v\<close> are the group operations above.
\<close>

definition dot :: "btVector3 \<Rightarrow> btVector3 \<Rightarrow> btScalar" where
  "dot u v = getX u * getX v + getY u * getY v + getZ u * getZ v"

definition cross :: "btVector3 \<Rightarrow> btVector3 \<Rightarrow> btVector3" where
  "cross u v = btVector3 (getY u * getZ v - getZ u * getY v)
                         (getZ u * getX v - getX u * getZ v)
                         (getX u * getY v - getY u * getX v)"

definition length3 :: "btVector3 \<Rightarrow> btScalar" where
  "length3 v = sqrt (dot v v)"

datatype btMatrix3x3 = btMatrix3x3 (row0: btVector3) (row1: btVector3) (row2: btVector3)

definition transpose3 :: "btMatrix3x3 \<Rightarrow> btMatrix3x3" where
  "transpose3 m = btMatrix3x3
     (btVector3 (getX (row0 m)) (getX (row1 m)) (getX (row2 m)))
     (btVector3 (getY (row0 m)) (getY (row1 m)) (getY (row2 m)))
     (btVector3 (getZ (row0 m)) (getZ (row1 m)) (getZ (row2 m)))"

definition mat_vec :: "btMatrix3x3 \<Rightarrow> btVector3 \<Rightarrow> btVector3" where
  "mat_vec m v = btVector3 (dot (row0 m) v) (dot (row1 m) v) (dot (row2 m) v)"

text \<open>
  Modelled from the spec: \<^verbatim>\<open>btTransform\<close> (Bullet's header, not under src/) is the
  spec's Transform, a rotation plus a translation. Applying it rotates and then
  translates; its inverse rotates back with the transposed basis, which undoes the basis
  when the rows of the basis are orthonormal (\<open>orthonormal\<close>), as those of a rotation are.
\<close>

record btTransform =
  m_basis :: btMatrix3x3
  m_origin :: btVector3

definition transform_apply :: "btTransform \<Rightarrow> btVector3 \<Rightarrow> btVector3" where
  "transform_apply tr x = mat_vec (m_basis tr) x + m_origin tr"

definition transform_inverse :: "btTransform \<Rightarrow> btTransform" where
  "transform_inverse tr =
     (let inv = transpose3 (m_basis tr)
      in \<lparr>m_basis = inv, m_origin = mat_vec inv (- m_origin tr)\<rparr>)"

definition orthonormal :: "btMatrix3x3 \<Rightarrow> bool" where
  "orthonormal m \<longleftrightarrow>
     dot (row0 m) (row0 m) = 1 \<and> dot (row1 m) (row1 m) = 1 \<and> dot (row2 m) (row2 m) = 1 \<and>
     dot (row0 m) (row1 m) = 0 \<and> dot (row0 m) (row2 m) = 0 \<and> dot (row1 m) (row2 m) = 0"

section \<open>The two collaborators\<close>

text \<open>
  Modelled from the spec: the rigid body (\<^verbatim>\<open>btRigidBody\<close>, Bullet, not under src/) is
  an external collaborator given by its interface: world transform, centre-of-mass
  position (the origin of the world transform), inverse mass, velocity at a point of
  the body, and the two commands \<^verbatim>\<open>activate\<close> and \<^verbatim>\<open>applyImpulse\<close>. The commands are
  recorded in the order the body receives them, with their arguments; what the
  dynamics engine then does with them is outside this development.
\<close>

datatype rigid_command = Activate | ApplyImpulse btVector3 btVector3

record btRigidBody =
  m_worldTransform :: btTransform
  m_inverseMass :: btScalar
  m_linearVelocity :: btVector3
  m_angularVelocity :: btVector3
  m_received :: "rigid_command list"

definition getWorldTransform :: "btRigidBody \<Rightarrow> btTransform" where
  "getWorldTransform B = m_worldTransform B"

definition getCenterOfMassPosition :: "btRigidBody \<Rightarrow> btVector3" where
  "getCenterOfMassPosition B = m_origin (m_worldTransform B)"

definition getInvMass :: "btRigidBody \<Rightarrow> btScalar" where
  "getInvMass B = m_inverseMass B"

definition getVelocityInLocalPoint :: "btRigidBody \<Rightarrow> btVector3 \<Rightarrow> btVector3" where
  "getVelocityInLocalPoint B rel_pos = m_linearVelocity B + cross (m_angularVelocity B) rel_pos"

definition activate :: "btRigidBody \<Rightarrow> btRigidBody" where
  "activate B = B\<lparr>m_received := m_received B @ [Activate]\<rparr>"

definition applyImpulse :: "btVector3 \<Rightarrow> btVector3 \<Rightarrow> btRigidBody \<Rightarrow> btRigidBody" where
  "applyImpulse impulse rel_pos B = B\<lparr>m_received := m_received B @ [ApplyImpulse impulse rel_pos]\<rparr>"

text \<open>
  The flexible node, \<^verbatim>\<open>CordeModel::CordePositionElement\<close>, with the fields the anchor
  reads and writes.
\<close>

record CordePositionElement =
  pos_new :: btVector3
  vel_new :: btVector3
  mass :: btScalar
  force :: btVector3
  isAnchor :: bool

text \<open>
  Modelled from the spec: \<^verbatim>\<open>CordePositionElement::applyForce\<close> (CordeModel.cpp, not
  under src/) applies the force additively to the node's force accumulator.
\<close>

definition applyForce :: "btVector3 \<Rightarrow> CordePositionElement \<Rightarrow> CordePositionElement" where
  "applyForce f E = E\<lparr>force := force E + f\<rparr>"

section \<open>Pointers and the world they point into\<close>

text \<open>
  The anchor holds raw, non-owning pointers. A pointer is \<open>None\<close> for \<^verbatim>\<open>NULL\<close> or the
  address of an object; the world maps the addresses of the live rigid bodies and nodes
  to their states, so that two anchors may point at one node. A failed \<^verbatim>\<open>assert\<close> and an
  access through a null or dangling pointer end the run and are error values.
\<close>

type_synonym ptr = "nat option"

datatype error = AssertionFailure | InvalidAccess | InvalidArgument string

record world =
  bodies :: "nat \<rightharpoonup> btRigidBody"
  elements :: "nat \<rightharpoonup> CordePositionElement"

record cordeAnchor =
  attachedBody :: ptr
  m_attachedElement :: ptr
  m_attachedQuaternion :: ptr
  attachedRelativeOriginalPosition :: btVector3

definition deref :: "(nat \<rightharpoonup> 'a) \<Rightarrow> ptr \<Rightarrow> error + 'a" where
  "deref h p =
     (case p of
        None \<Rightarrow> Inl InvalidAccess
      | Some i \<Rightarrow> (case h i of None \<Rightarrow> Inl InvalidAccess | Some v \<Rightarrow> Inr v))"

definition set_isAnchor :: "ptr \<Rightarrow> bool \<Rightarrow> world \<Rightarrow> error + world" where
  "set_isAnchor p flag w =
     (case p of
        None \<Rightarrow> Inl InvalidAccess
      | Some e \<Rightarrow>
          (case elements w e of
             None \<Rightarrow> Inl InvalidAccess
           | Some E \<Rightarrow> Inr (w\<lparr>elements := (elements w)(e \<mapsto> E\<lparr>isAnchor := flag\<rparr>)\<rparr>)))"

section \<open>cordeAnchor\<close>

text \<open>
  The constructor: the member initialisers read the body's world transform, the body
  sets the node's flag, and only then the three assertions run.
\<close>

definition cordeAnchor_ctor ::
  "ptr \<Rightarrow> ptr \<Rightarrow> ptr \<Rightarrow> btVector3 \<Rightarrow> world \<Rightarrow> error + (cordeAnchor \<times> world)" where
  "cordeAnchor_ctor body element qElement worldPos w =
     (case deref (bodies w) body of
        Inl err \<Rightarrow> Inl err
      | Inr B \<Rightarrow>
          let a = \<lparr>attachedBody = body,
                   m_attachedElement = element,
                   m_attachedQuaternion = qElement,
                   attachedRelativeOriginalPosition =
                     transform_apply (transform_inverse (getWorldTransform B)) worldPos\<rparr>
          in (case set_isAnchor (m_attachedElement a) True w of
                Inl err \<Rightarrow> Inl err
              | Inr w' \<Rightarrow>
                  if body = None then Inl AssertionFailure
                  else if element = None then Inl AssertionFailure
                  else if qElement = None then Inl AssertionFailure
                  else Inr (a, w')))"

definition cordeAnchor_dtor :: "cordeAnchor \<Rightarrow> world \<Rightarrow> error + (cordeAnchor \<times> world)" where
  "cordeAnchor_dtor a w =
     (case set_isAnchor (m_attachedElement a) False w of
        Inl err \<Rightarrow> Inl err
      | Inr w' \<Rightarrow> Inr (a\<lparr>attachedBody := None, m_attachedElement := None\<rparr>, w'))"

definition getRelativePosition :: "cordeAnchor \<Rightarrow> world \<Rightarrow> error + btVector3" where
  "getRelativePosition a w =
     (case deref (bodies w) (attachedBody a) of
        Inl err \<Rightarrow> Inl err
      | Inr B \<Rightarrow>
          let tr = getWorldTransform B;
              worldPos = transform_apply tr (attachedRelativeOriginalPosition a)
          in Inr (worldPos - getCenterOfMassPosition B))"

definition getWorldPosition :: "cordeAnchor \<Rightarrow> world \<Rightarrow> error + btVector3" where
  "getWorldPosition a w =
     (case deref (bodies w) (attachedBody a) of
        Inl err \<Rightarrow> Inl err
      | Inr B \<Rightarrow>
          let tr = getWorldTransform B
          in Inr (transform_apply tr (attachedRelativeOriginalPosition a)))"

text \<open>
  The effective rigid mass and the mass ratio, as both branches of \<^verbatim>\<open>solve\<close> compute
  them from the body's inverse mass and the node's mass.
\<close>

definition rMass :: "btScalar \<Rightarrow> btScalar" where
  "rMass invMass = (if invMass > 0 then 1 / invMass else 0)"

definition massRatio :: "btScalar \<Rightarrow> btScalar \<Rightarrow> btScalar" where
  "massRatio rM sMass = (if rM = 0 then 1 else rM * 1 / (rM + sMass))"

text \<open>
  \<^verbatim>\<open>solve\<close> without \<^verbatim>\<open>SOLVE_VELOCITY\<close> (the build as it stands): the position-based
  branch. \<^verbatim>\<open>pow(idt, 2.0)\<close> and \<^verbatim>\<open>pow(idt, 1.0)\<close> are the powers \<open>idt\<^sup>2\<close> and \<open>idt ^ 1\<close>.
  The node's force is read for the impulse after \<^verbatim>\<open>applyForce\<close> has run, and the
  relative position after \<^verbatim>\<open>activate\<close>. The two lengths are computed and never used.
  The method hands back its own object next to the world it has changed.
\<close>

definition solve_position ::
  "btScalar \<Rightarrow> cordeAnchor \<Rightarrow> world \<Rightarrow> error + (cordeAnchor \<times> world)" where
  "solve_position dt a w =
     (case attachedBody a of
        None \<Rightarrow> Inl AssertionFailure
      | Some b \<Rightarrow>
     (case m_attachedElement a of
        None \<Rightarrow> Inl AssertionFailure
      | Some e \<Rightarrow>
     (let idt = 1 / dt in
     (case getWorldPosition a w of
        Inl err \<Rightarrow> Inl err
      | Inr rbPos \<Rightarrow>
     (case elements w e of
        None \<Rightarrow> Inl InvalidAccess
      | Some E \<Rightarrow>
     (case bodies w b of
        None \<Rightarrow> Inl InvalidAccess
      | Some B \<Rightarrow>
     (let softPos = pos_new E;
          posDiff = rbPos - softPos;
          rbLength = length3 (attachedRelativeOriginalPosition a);
          softLength = length3 (getCenterOfMassPosition B - softPos);
          rM = rMass (getInvMass B);
          sMass = mass E;
          mr = massRatio rM sMass;
          rSoft = mr *\<^sub>R posDiff;
          rRigid = (1 - mr) *\<^sub>R (- posDiff);
          fSoft = (idt ^ 2 * sMass) *\<^sub>R rSoft;
          E1 = applyForce fSoft E;
          w1 = w\<lparr>elements := (elements w)(e \<mapsto> E1)\<rparr>;
          fRigid = (idt ^ 1 * rM) *\<^sub>R rRigid + dt *\<^sub>R force E1;
          B1 = activate B;
          w2 = w1\<lparr>bodies := (bodies w1)(b \<mapsto> B1)\<rparr>
      in (case getRelativePosition a w2 of
            Inl err \<Rightarrow> Inl err
          | Inr rel \<Rightarrow>
              Inr (a, w2\<lparr>bodies := (bodies w2)(b \<mapsto> applyImpulse fRigid rel B1)\<rparr>)))))))))"

text \<open>
  \<^verbatim>\<open>solve\<close> with \<^verbatim>\<open>SOLVE_VELOCITY\<close> defined: the velocity-based branch.
\<close>

definition solve_velocity ::
  "btScalar \<Rightarrow> cordeAnchor \<Rightarrow> world \<Rightarrow> error + (cordeAnchor \<times> world)" where
  "solve_velocity dt a w =
     (case attachedBody a of
        None \<Rightarrow> Inl AssertionFailure
      | Some b \<Rightarrow>
     (case m_attachedElement a of
        None \<Rightarrow> Inl AssertionFailure
      | Some e \<Rightarrow>
     (let idt = 1 / dt in
     (case getRelativePosition a w of
        Inl err \<Rightarrow> Inl err
      | Inr rel0 \<Rightarrow>
     (case bodies w b of
        None \<Rightarrow> Inl InvalidAccess
      | Some B \<Rightarrow>
     (case elements w e of
        None \<Rightarrow> Inl InvalidAccess
      | Some E \<Rightarrow>
     (let rbVel = getVelocityInLocalPoint B rel0;
          softVel = vel_new E;
          velDiff = rbVel - softVel;
          rM = rMass (getInvMass B);
          sMass = mass E;
          mr = massRatio rM sMass;
          vSoft = mr *\<^sub>R velDiff;
          vRigid = (1 - mr) *\<^sub>R (- velDiff);
          fSoft = (idt * sMass) *\<^sub>R vSoft;
          E1 = applyForce fSoft E;
          w1 = w\<lparr>elements := (elements w)(e \<mapsto> E1)\<rparr>;
          fRigid = rM *\<^sub>R vRigid;
          B1 = activate B;
          w2 = w1\<lparr>bodies := (bodies w1)(b \<mapsto> B1)\<rparr>
      in (case getRelativePosition a w2 of
            Inl err \<Rightarrow> Inl err
          | Inr rel \<Rightarrow>
              Inr (a, w2\<lparr>bodies := (bodies w2)(b \<mapsto> applyImpulse fRigid rel B1)\<rparr>)))))))))"

text \<open>
  The preprocessor switch: \<^verbatim>\<open>#ifndef SOLVE_VELOCITY\<close> selects the position branch, and
  the \<^verbatim>\<open>#define\<close> is commented out in the source.
\<close>

definition solve ::
  "bool \<Rightarrow> btScalar \<Rightarrow> cordeAnchor \<Rightarrow> world \<Rightarrow> error + (cordeAnchor \<times> world)" where
  "solve SOLVE_VELOCITY dt a w =
     (if \<not> SOLVE_VELOCITY then solve_position dt a w else solve_velocity dt a w)"

section \<open>tgDataManager\<close>

record tgDataManager =
  m_sensors :: "ptr list"
  m_sensorInfos :: "ptr list"
  m_senseables :: "ptr list"

definition invariant :: "tgDataManager \<Rightarrow> bool" where
  "invariant m = True"

text \<open>
  \<^verbatim>\<open>tgDataManager::step\<close>: the outcome of the call (an exception, or a normal return)
  next to the manager as the call leaves it.
\<close>

definition tgDataManager_step ::
  "real \<Rightarrow> tgDataManager \<Rightarrow> (error + unit) \<times> tgDataManager" where
  "tgDataManager_step dt m =
     (if dt \<le> 0 then (Inl (InvalidArgument ''dt is not positive''), m)
      else if \<not> invariant m then (Inl AssertionFailure, m)
      else (Inr (), m))"

section \<open>The life of an anchor\<close>

text \<open>
  What happens to an anchor after its construction: the simulation calls its three
  methods in any order, and between the calls the rest of the simulation changes the
  world (the engine moves the bodies, the rod model integrates the nodes).
\<close>

datatype anchor_event =
    Solve btScalar
  | GetWorldPosition
  | GetRelativePosition
  | Elsewhere "world \<Rightarrow> world"

fun do_event ::
  "bool \<Rightarrow> anchor_event \<Rightarrow> cordeAnchor \<times> world \<Rightarrow> error + (cordeAnchor \<times> world)" where
  "do_event SOLVE_VELOCITY (Solve dt) (a, w) = solve SOLVE_VELOCITY dt a w"
| "do_event SOLVE_VELOCITY GetWorldPosition (a, w) =
     (case getWorldPosition a w of Inl err \<Rightarrow> Inl err | Inr worldPos \<Rightarrow> Inr (a, w))"
| "do_event SOLVE_VELOCITY GetRelativePosition (a, w) =
     (case getRelativePosition a w of Inl err \<Rightarrow> Inl err | Inr relPos \<Rightarrow> Inr (a, w))"
| "do_event SOLVE_VELOCITY (Elsewhere change) (a, w) = Inr (a, change w)"

fun run_events ::
  "bool \<Rightarrow> anchor_event list \<Rightarrow> cordeAnchor \<times> world \<Rightarrow> error + (cordeAnchor \<times> world)" where
  "run_events SOLVE_VELOCITY [] s = Inr s"
| "run_events SOLVE_VELOCITY (ev # evs) s =
     (case do_event SOLVE_VELOCITY ev s of
        Inl err \<Rightarrow> Inl err
      | Inr s' \<Rightarrow> run_events SOLVE_VELOCITY evs s')"

section \<open>An example scene\<close>

text \<open>
  One rigid body at address 0, turned a quarter turn about the z axis and moved to
  \<open>(1, 2, 3)\<close>, and one node at address 0. An anchor with rest offset \<open>(1, 0, 0)\<close> sits
  at the world point \<open>(1, 3, 3)\<close>; the node's predicted position \<open>(0, 3, 3)\<close> lies one unit
  behind it along x.
\<close>

definition quarter_turn :: btMatrix3x3 where
  "quarter_turn = btMatrix3x3 (btVector3 0 (- 1) 0) (btVector3 1 0 0) (btVector3 0 0 1)"

definition example_body :: "btScalar \<Rightarrow> btRigidBody" where
  "example_body invMass =
     \<lparr>m_worldTransform = \<lparr>m_basis = quarter_turn, m_origin = btVector3 1 2 3\<rparr>,
      m_inverseMass = invMass,
      m_linearVelocity = btVector3 0 0 5,
      m_angularVelocity = btVector3 0 0 1,
      m_received = []\<rparr>"

definition example_node :: "btScalar \<Rightarrow> btVector3 \<Rightarrow> CordePositionElement" where
  "example_node m f =
     \<lparr>pos_new = btVector3 0 3 3, vel_new = btVector3 0 0 1, mass = m, force = f,
      isAnchor = False\<rparr>"

definition example_world :: "btScalar \<Rightarrow> btScalar \<Rightarrow> btVector3 \<Rightarrow> world" where
  "example_world invMass m f =
     \<lparr>bodies = [0 \<mapsto> example_body invMass], elements = [0 \<mapsto> example_node m f]\<rparr>"

definition example_anchor :: cordeAnchor where
  "example_anchor =
     \<lparr>attachedBody = Some 0, m_attachedElement = Some 0, m_attachedQuaternion = Some 0,
      attachedRelativeOriginalPosition = btVector3 1 0 0\<rparr>"

text \<open>
  The engine moving the bodies between two calls: every body is put at \<open>(4, 5, 6)\<close>,
  turned a quarter turn the other way.
\<close>

definition example_move :: "world \<Rightarrow> world" where
  "example_move w =
     w\<lparr>bodies := (\<lambda>i. map_option
        (\<lambda>B. B\<lparr>m_worldTransform := \<lparr>m_basis = transpose3 quarter_turn, m_origin = btVector3 4 5 6\<rparr>\<rparr>)
        (bodies w i))\<rparr>"

section \<open>What one call of solve does\<close>

lemma solve_position_valid:
  fixes dt :: real
  assumes "attachedBody a = Some b" and "m_attachedElement a = Some e"
    and "bodies w b = Some B" and "elements w e = Some E"
  defines "anchorPos \<equiv> transform_apply (m_worldTransform B) (attachedRelativeOriginalPosition a)"
  defines "posDiff \<equiv> anchorPos - pos_new E"
  defines "rM \<equiv> rMass (m_inverseMass B)"
  defines "mr \<equiv> massRatio rM (mass E)"
  defines "fSoft \<equiv> ((1 / dt)\<^sup>2 * mass E) *\<^sub>R (mr *\<^sub>R posDiff)"
  shows "solve_position dt a w =
    Inr (a, w\<lparr>elements := (elements w)(e \<mapsto> E\<lparr>force := force E + fSoft\<rparr>),
              bodies := (bodies w)(b \<mapsto> B\<lparr>m_received := m_received B @
                [Activate,
                 ApplyImpulse ((1 / dt * rM) *\<^sub>R ((1 - mr) *\<^sub>R (- posDiff)) + dt *\<^sub>R (force E + fSoft))
                   (anchorPos - m_origin (m_worldTransform B))]\<rparr>)\<rparr>)"
  using assms(1-4)
  unfolding anchorPos_def posDiff_def rM_def mr_def fSoft_def solve_position_def Let_def
  by (simp add: getWorldPosition_def getRelativePosition_def deref_def
      Let_def applyForce_def activate_def applyImpulse_def getWorldTransform_def
      getCenterOfMassPosition_def getInvMass_def)

lemma solve_velocity_valid:
  fixes dt :: real
  assumes "attachedBody a = Some b" and "m_attachedElement a = Some e"
    and "bodies w b = Some B" and "elements w e = Some E"
  defines "anchorPos \<equiv> transform_apply (m_worldTransform B) (attachedRelativeOriginalPosition a)"
  defines "rel \<equiv> anchorPos - m_origin (m_worldTransform B)"
  defines "velDiff \<equiv> (m_linearVelocity B + cross (m_angularVelocity B) rel) - vel_new E"
  defines "rM \<equiv> rMass (m_inverseMass B)"
  defines "mr \<equiv> massRatio rM (mass E)"
  shows "solve_velocity dt a w =
    Inr (a, w\<lparr>elements := (elements w)(e \<mapsto> E\<lparr>force := force E + (1 / dt * mass E) *\<^sub>R (mr *\<^sub>R velDiff)\<rparr>),
              bodies := (bodies w)(b \<mapsto> B\<lparr>m_received := m_received B @
                [Activate, ApplyImpulse (rM *\<^sub>R ((1 - mr) *\<^sub>R (- velDiff))) rel]\<rparr>)\<rparr>)"
  using assms(1-4)
  unfolding anchorPos_def rel_def velDiff_def rM_def mr_def solve_velocity_def Let_def
  by (simp add: getWorldPosition_def getRelativePosition_def deref_def
      Let_def applyForce_def activate_def applyImpulse_def getWorldTransform_def
      getCenterOfMassPosition_def getInvMass_def getVelocityInLocalPoint_def)

lemma solve_assertion_iff:
  "solve SOLVE_VELOCITY dt a w = Inl AssertionFailure \<longleftrightarrow>
     attachedBody a = None \<or> m_attachedElement a = None"
proof (cases "attachedBody a")
  case None
  then show ?thesis
    by (simp add: solve_def solve_position_def solve_velocity_def)
next
  case (Some b)
  note body = this
  show ?thesis
  proof (cases "m_attachedElement a")
    case None
    with body show ?thesis
      by (simp add: solve_def solve_position_def solve_velocity_def)
  next
    case (Some e)
    with body show ?thesis
      by (simp add: solve_def solve_position_def solve_velocity_def getWorldPosition_def
          getRelativePosition_def deref_def Let_def split: option.splits)
  qed
qed

lemma massRatio_cases:
  "(0 < invMass \<longrightarrow>
      rMass invMass = 1 / invMass \<and> 0 < rMass invMass \<and>
      massRatio (rMass invMass) sMass = rMass invMass / (rMass invMass + sMass)) \<and>
   (invMass = 0 \<longrightarrow> rMass invMass = 0 \<and> massRatio (rMass invMass) sMass = 1) \<and>
   (0 < invMass \<and> sMass = 1 / invMass \<longrightarrow> massRatio (rMass invMass) sMass = 1 / 2)"
  by (simp add: rMass_def massRatio_def)

section \<open>The example scene, evaluated\<close>

lemma example_scene:
  "attachedBody example_anchor = Some 0" "m_attachedElement example_anchor = Some 0"
  "bodies (example_world invMass m f) 0 = Some (example_body invMass)"
  "elements (example_world invMass m f) 0 = Some (example_node m f)"
  by (simp_all add: example_anchor_def example_world_def)

lemma example_anchor_position:
  "transform_apply (getWorldTransform (example_body invMass))
     (attachedRelativeOriginalPosition example_anchor) = btVector3 1 3 3"
  by (simp add: example_body_def example_anchor_def getWorldTransform_def transform_apply_def
      mat_vec_def dot_def quarter_turn_def plus_btVector3_def)

lemma example_solve_position:
  "solve False dt example_anchor (example_world invMass m f) =
     Inr (example_anchor,
       \<lparr>bodies = [0 \<mapsto> (example_body invMass)\<lparr>m_received :=
           [Activate,
            ApplyImpulse
              ((1 / dt * rMass invMass) *\<^sub>R
                 ((1 - massRatio (rMass invMass) m) *\<^sub>R btVector3 (- 1) 0 0) +
               dt *\<^sub>R (f + ((1 / dt)\<^sup>2 * m) *\<^sub>R (massRatio (rMass invMass) m *\<^sub>R btVector3 1 0 0)))
              (btVector3 0 1 0)]\<rparr>],
        elements = [0 \<mapsto> (example_node m f)\<lparr>force :=
           f + ((1 / dt)\<^sup>2 * m) *\<^sub>R (massRatio (rMass invMass) m *\<^sub>R btVector3 1 0 0)\<rparr>]\<rparr>)"
  by (simp add: solve_def solve_position_valid [OF example_scene])
    (simp add: example_world_def example_anchor_def example_node_def example_body_def
      quarter_turn_def transform_apply_def mat_vec_def dot_def
      plus_btVector3_def minus_btVector3_def uminus_btVector3_def)

lemma example_orthonormal: "orthonormal (m_basis (getWorldTransform (example_body invMass)))"
  by (simp add: orthonormal_def getWorldTransform_def example_body_def quarter_turn_def dot_def)

lemmas example_eval =
  example_world_def example_anchor_def example_node_def example_body_def quarter_turn_def
  transform_apply_def mat_vec_def dot_def cross_def
  getWorldTransform_def getCenterOfMassPosition_def getInvMass_def getVelocityInLocalPoint_def
  rMass_def massRatio_def
  zero_btVector3_def plus_btVector3_def minus_btVector3_def uminus_btVector3_def
  scaleR_btVector3_def power2_eq_square

section \<open>Construction, destruction and the events in between\<close>

lemma cordeAnchor_ctor_valid:
  assumes "bodies w b = Some B" and "elements w e = Some E"
  shows "cordeAnchor_ctor (Some b) (Some e) (Some q) worldPos w =
    Inr (\<lparr>attachedBody = Some b, m_attachedElement = Some e, m_attachedQuaternion = Some q,
          attachedRelativeOriginalPosition =
            transform_apply (transform_inverse (m_worldTransform B)) worldPos\<rparr>,
         w\<lparr>elements := (elements w)(e \<mapsto> E\<lparr>isAnchor := True\<rparr>)\<rparr>)"
  using assms
  by (simp add: cordeAnchor_ctor_def deref_def set_isAnchor_def Let_def getWorldTransform_def)

lemma cordeAnchor_dtor_valid:
  assumes "m_attachedElement a = Some e" and "elements w e = Some E"
  shows "cordeAnchor_dtor a w =
    Inr (a\<lparr>attachedBody := None, m_attachedElement := None\<rparr>,
         w\<lparr>elements := (elements w)(e \<mapsto> E\<lparr>isAnchor := False\<rparr>)\<rparr>)"
  using assms
  by (simp add: cordeAnchor_dtor_def set_isAnchor_def)

lemma solve_keeps_anchor:
  assumes "solve SOLVE_VELOCITY dt a w = Inr (a', w')"
  shows "a' = a"
  using assms
  by (auto simp add: solve_def solve_position_def solve_velocity_def Let_def
      split: if_splits option.splits sum.splits)

lemma do_event_keeps_anchor:
  assumes "do_event SOLVE_VELOCITY ev (a, w) = Inr (a', w')"
  shows "a' = a"
  using assms
  by (cases ev) (auto dest: solve_keeps_anchor split: sum.splits)

lemma run_events_keeps_anchor:
  assumes "run_events SOLVE_VELOCITY evs (a, w) = Inr (a', w')"
  shows "a' = a"
  using assms
proof (induction evs arbitrary: w)
  case Nil
  then show ?case
    by simp
next
  case (Cons ev evs)
  from Cons.prems obtain a1 w1
    where first: "do_event SOLVE_VELOCITY ev (a, w) = Inr (a1, w1)"
      and rest: "run_events SOLVE_VELOCITY evs (a1, w1) = Inr (a', w')"
    by (auto split: sum.splits)
  from first have "a1 = a"
    by (rule do_event_keeps_anchor)
  with rest Cons.IH show ?case
    by blast
qed

lemma do_event_valid:
  assumes "attachedBody a = Some b" and "m_attachedElement a = Some e"
    and "bodies w b = Some B" and "elements w e = Some E"
  shows "\<exists>w' B' E'. do_event False (Solve dt) (a, w) = Inr (a, w') \<and> bodies w' b = Some B' \<and> elements w' e = Some E'"
    and "do_event False GetWorldPosition (a, w) = Inr (a, w)"
    and "do_event False GetRelativePosition (a, w) = Inr (a, w)"
  using assms
  by (simp_all add: solve_def solve_position_valid [OF assms] getWorldPosition_def
      getRelativePosition_def deref_def Let_def)

section \<open>A rotation undone by its transpose\<close>

lemma dot_transpose3:
  "dot r (mat_vec (transpose3 M) q) =
     dot r (row0 M) * getX q + dot r (row1 M) * getY q + dot r (row2 M) * getZ q"
  by (simp add: dot_def mat_vec_def transpose3_def algebra_simps)

lemma dot_commute: "dot u v = dot v u"
  by (simp add: dot_def mult.commute)

lemma mat_vec_transpose3_rotation:
  assumes "orthonormal M"
  shows "mat_vec M (mat_vec (transpose3 M) q) = q"
proof -
  from assms have diag: "dot (row0 M) (row0 M) = 1" "dot (row1 M) (row1 M) = 1"
      "dot (row2 M) (row2 M) = 1"
    and upper: "dot (row0 M) (row1 M) = 0" "dot (row0 M) (row2 M) = 0" "dot (row1 M) (row2 M) = 0"
    by (simp_all add: orthonormal_def)
  from upper have lower: "dot (row1 M) (row0 M) = 0" "dot (row2 M) (row0 M) = 0"
      "dot (row2 M) (row1 M) = 0"
    by (simp_all only: dot_commute [of "row1 M" "row0 M"] dot_commute [of "row2 M" "row0 M"]
        dot_commute [of "row2 M" "row1 M"])
  show ?thesis
    by (simp add: mat_vec_def [of M] dot_transpose3 diag upper lower)
qed

lemma transform_inverse_apply:
  "transform_apply (transform_inverse tr) p = mat_vec (transpose3 (m_basis tr)) (p - m_origin tr)"
  by (cases p; cases "m_origin tr")
    (simp add: transform_apply_def transform_inverse_def Let_def mat_vec_def dot_def
      plus_btVector3_def minus_btVector3_def uminus_btVector3_def algebra_simps)

lemma transform_roundtrip:
  assumes "orthonormal (m_basis tr)"
  shows "transform_apply tr (transform_apply (transform_inverse tr) p) = p"
  by (simp add: transform_inverse_apply transform_apply_def [of tr]
      mat_vec_transpose3_rotation [OF assms])

section \<open>The impulse on an immovable body\<close>

text \<open>
  C1, as claimed: with inverse mass \<open>0\<close> the impulse handed to \<^verbatim>\<open>applyImpulse\<close> would be
  the zero vector. It is not: in the example scene, with an immovable body, a node of
  mass \<open>2\<close> with no force on it yet and \<open>dt = 1/2\<close>, the node receives the force
  \<open>(8, 0, 0)\<close> and the body the impulse \<open>(4, 0, 0)\<close>.
\<close>

theorem zero_impulse_counterexample:
  "solve False (1 / 2) example_anchor (example_world 0 2 0) =
     Inr (example_anchor,
       \<lparr>bodies = [0 \<mapsto> (example_body 0)\<lparr>m_received :=
           [Activate, ApplyImpulse (btVector3 4 0 0) (btVector3 0 1 0)]\<rparr>],
        elements = [0 \<mapsto> (example_node 2 0)\<lparr>force := btVector3 8 0 0\<rparr>]\<rparr>) \<and>
   m_inverseMass (example_body 0) = 0 \<and>
   btVector3 4 0 0 \<noteq> 0"
  by (simp add: example_solve_position)
    (simp add: example_body_def rMass_def massRatio_def zero_btVector3_def plus_btVector3_def
      minus_btVector3_def uminus_btVector3_def scaleR_btVector3_def power2_eq_square)

text \<open>
  C1, amended: for a body with inverse mass \<open>0\<close> and \<open>dt > 0\<close>, the mass-ratio share of
  the impulse vanishes and what \<^verbatim>\<open>applyImpulse\<close> receives is \<open>dt\<close> times the node's force
  accumulator as it stands after the flexible-side force \<open>(1/dt)\<^sup>2 * nodeMass * posDiff\<close>
  has been added to it; that impulse is the zero vector exactly when this accumulated
  force is.
\<close>

theorem immovable_body_impulse:
  fixes dt :: real
  assumes "getInvMass B = 0" and "0 < dt"
    and "attachedBody a = Some b" and "m_attachedElement a = Some e"
    and "bodies w b = Some B" and "elements w e = Some E"
  defines "anchorPos \<equiv> transform_apply (getWorldTransform B) (attachedRelativeOriginalPosition a)"
  defines "accumulated \<equiv> force E + ((1 / dt)\<^sup>2 * mass E) *\<^sub>R (anchorPos - pos_new E)"
  shows "\<exists>w'. solve False dt a w = Inr (a, w') \<and>
    map_option force (elements w' e) = Some accumulated \<and>
    bodies w' b =
      Some (B\<lparr>m_received := m_received B @
        [Activate, ApplyImpulse (dt *\<^sub>R accumulated) (anchorPos - getCenterOfMassPosition B)]\<rparr>) \<and>
    (dt *\<^sub>R accumulated = 0 \<longleftrightarrow> accumulated = 0)"
  using assms(1,2)
  unfolding anchorPos_def accumulated_def
  by (simp add: solve_def solve_position_valid [OF assms(3-6)] getWorldTransform_def
      getInvMass_def getCenterOfMassPosition_def rMass_def massRatio_def)

theorem immovable_body_impulse_witness:
  "\<exists>w'. solve False (1 / 2) example_anchor (example_world 0 2 (btVector3 (- 8) 0 0)) =
       Inr (example_anchor, w') \<and>
     getInvMass (example_body 0) = 0 \<and>
     map_option force (elements w' 0) = Some 0 \<and>
     map_option m_received (bodies w' 0) = Some [Activate, ApplyImpulse 0 (btVector3 0 1 0)]"
proof -
  have immovable: "getInvMass (example_body 0) = 0"
    by (simp add: getInvMass_def example_body_def)
  have "(0::real) < 1 / 2"
    by simp
  from immovable_body_impulse [OF immovable this example_scene, of 2 "btVector3 (- 8) 0 0"]
  obtain w' where run: "solve False (1 / 2) example_anchor (example_world 0 2 (btVector3 (- 8) 0 0)) =
       Inr (example_anchor, w')"
    and node: "map_option force (elements w' 0) =
       Some (force (example_node 2 (btVector3 (- 8) 0 0)) +
         ((1 / (1 / 2))\<^sup>2 * mass (example_node 2 (btVector3 (- 8) 0 0))) *\<^sub>R
         (transform_apply (getWorldTransform (example_body 0))
            (attachedRelativeOriginalPosition example_anchor) -
          pos_new (example_node 2 (btVector3 (- 8) 0 0))))"
    and body: "bodies w' 0 =
       Some ((example_body 0)\<lparr>m_received := m_received (example_body 0) @
         [Activate,
          ApplyImpulse ((1 / 2) *\<^sub>R
            (force (example_node 2 (btVector3 (- 8) 0 0)) +
             ((1 / (1 / 2))\<^sup>2 * mass (example_node 2 (btVector3 (- 8) 0 0))) *\<^sub>R
             (transform_apply (getWorldTransform (example_body 0))
                (attachedRelativeOriginalPosition example_anchor) -
              pos_new (example_node 2 (btVector3 (- 8) 0 0)))))
            (transform_apply (getWorldTransform (example_body 0))
               (attachedRelativeOriginalPosition example_anchor) -
             getCenterOfMassPosition (example_body 0))]\<rparr>)"
    by blast
  have "map_option force (elements w' 0) = Some 0"
    unfolding node example_anchor_position
    by (simp add: example_node_def zero_btVector3_def plus_btVector3_def minus_btVector3_def
        scaleR_btVector3_def)
  moreover have "map_option m_received (bodies w' 0) = Some [Activate, ApplyImpulse 0 (btVector3 0 1 0)]"
    unfolding body example_anchor_position
    by (simp add: example_node_def example_body_def getCenterOfMassPosition_def
        zero_btVector3_def plus_btVector3_def minus_btVector3_def scaleR_btVector3_def)
  ultimately show ?thesis
    using run immovable by blast
qed

section \<open>A time step that is not positive\<close>

text \<open>
  C2, as claimed: \<^verbatim>\<open>solve\<close> with \<open>dt \<le> 0\<close> would fail loudly. It does not: with
  \<open>dt = - 1\<close> in the example scene the call returns, having added \<open>(1, 0, 0)\<close> to the
  node's force \<open>(0, 1, 0)\<close> and handed the body the impulse \<open>(0, - 1, 0)\<close>.
\<close>

theorem solve_negative_dt_counterexample:
  "solve False (- 1) example_anchor (example_world (1 / 2) 2 (btVector3 0 1 0)) =
     Inr (example_anchor,
       \<lparr>bodies = [0 \<mapsto> (example_body (1 / 2))\<lparr>m_received :=
           [Activate, ApplyImpulse (btVector3 0 (- 1) 0) (btVector3 0 1 0)]\<rparr>],
        elements = [0 \<mapsto> (example_node 2 (btVector3 0 1 0))\<lparr>force := btVector3 1 1 0\<rparr>]\<rparr>)"
  by (simp add: example_solve_position)
    (simp add: example_body_def rMass_def massRatio_def zero_btVector3_def plus_btVector3_def
      minus_btVector3_def uminus_btVector3_def scaleR_btVector3_def power2_eq_square)

text \<open>
  C2, amended: \<^verbatim>\<open>solve\<close> never looks at the sign of \<open>dt\<close>, in either branch. For every
  \<open>dt\<close> it fails an assertion exactly when the body or the node pointer is null, and with
  a live body and node it returns. For \<open>dt < 0\<close> it then has added to the node's force and
  handed to the body (activate, then the impulse at the anchor's relative position)
  exactly what the formulas for a positive step give with the negative \<open>1/dt\<close>: in the
  position branch the force \<open>(1/dt)\<^sup>2 * nodeMass * massRatio * posDiff\<close> and the impulse
  \<open>(1/dt) * rMass * rRigid + nodeForce * dt\<close>, in the velocity branch the force
  \<open>(1/dt) * nodeMass * massRatio * velDiff\<close> and the impulse \<open>rMass * vRigid\<close>; nothing else
  in the world changes.
\<close>

theorem solve_never_checks_dt:
  fixes dt :: real and a :: cordeAnchor and B :: btRigidBody and E :: CordePositionElement
  defines "rM \<equiv> rMass (getInvMass B)"
  defines "mr \<equiv> massRatio rM (mass E)"
  defines "anchorPos \<equiv> transform_apply (getWorldTransform B) (attachedRelativeOriginalPosition a)"
  defines "rel \<equiv> anchorPos - getCenterOfMassPosition B"
  defines "posDiff \<equiv> anchorPos - pos_new E"
  defines "velDiff \<equiv> getVelocityInLocalPoint B rel - vel_new E"
  defines "fSoft \<equiv> ((1 / dt)\<^sup>2 * mass E) *\<^sub>R (mr *\<^sub>R posDiff)"
  shows "(solve SOLVE_VELOCITY dt a w = Inl AssertionFailure \<longleftrightarrow>
       attachedBody a = None \<or> m_attachedElement a = None) \<and>
    (attachedBody a = Some b \<and> m_attachedElement a = Some e \<and>
     bodies w b = Some B \<and> elements w e = Some E \<longrightarrow>
       (\<exists>w'. solve SOLVE_VELOCITY dt a w = Inr (a, w')) \<and>
       (dt < 0 \<longrightarrow>
          solve False dt a w =
            Inr (a, w\<lparr>elements := (elements w)(e \<mapsto> E\<lparr>force := force E + fSoft\<rparr>),
                      bodies := (bodies w)(b \<mapsto> B\<lparr>m_received := m_received B @
                        [Activate,
                         ApplyImpulse
                           ((1 / dt * rM) *\<^sub>R ((1 - mr) *\<^sub>R (- posDiff)) + dt *\<^sub>R (force E + fSoft))
                           rel]\<rparr>)\<rparr>) \<and>
          solve True dt a w =
            Inr (a, w\<lparr>elements := (elements w)(e \<mapsto>
                        E\<lparr>force := force E + (1 / dt * mass E) *\<^sub>R (mr *\<^sub>R velDiff)\<rparr>),
                      bodies := (bodies w)(b \<mapsto> B\<lparr>m_received := m_received B @
                        [Activate, ApplyImpulse (rM *\<^sub>R ((1 - mr) *\<^sub>R (- velDiff))) rel]\<rparr>)\<rparr>)))"
proof (intro conjI impI)
  show "solve SOLVE_VELOCITY dt a w = Inl AssertionFailure \<longleftrightarrow>
       attachedBody a = None \<or> m_attachedElement a = None"
    by (rule solve_assertion_iff)
next
  assume live: "attachedBody a = Some b \<and> m_attachedElement a = Some e \<and>
     bodies w b = Some B \<and> elements w e = Some E"
  then show "\<exists>w'. solve SOLVE_VELOCITY dt a w = Inr (a, w')"
    by (cases SOLVE_VELOCITY)
      (simp_all add: solve_def solve_position_valid [of a b e w B E]
        solve_velocity_valid [of a b e w B E])
next
  assume live: "attachedBody a = Some b \<and> m_attachedElement a = Some e \<and>
     bodies w b = Some B \<and> elements w e = Some E"
  then show "solve False dt a w =
            Inr (a, w\<lparr>elements := (elements w)(e \<mapsto> E\<lparr>force := force E + fSoft\<rparr>),
                      bodies := (bodies w)(b \<mapsto> B\<lparr>m_received := m_received B @
                        [Activate,
                         ApplyImpulse
                           ((1 / dt * rM) *\<^sub>R ((1 - mr) *\<^sub>R (- posDiff)) + dt *\<^sub>R (force E + fSoft))
                           rel]\<rparr>)\<rparr>)"
    unfolding rM_def mr_def anchorPos_def rel_def posDiff_def fSoft_def
    by (simp add: solve_def solve_position_valid [of a b e w B E] getWorldTransform_def
        getInvMass_def getCenterOfMassPosition_def)
next
  assume live: "attachedBody a = Some b \<and> m_attachedElement a = Some e \<and>
     bodies w b = Some B \<and> elements w e = Some E"
  then show "solve True dt a w =
            Inr (a, w\<lparr>elements := (elements w)(e \<mapsto>
                        E\<lparr>force := force E + (1 / dt * mass E) *\<^sub>R (mr *\<^sub>R velDiff)\<rparr>),
                      bodies := (bodies w)(b \<mapsto> B\<lparr>m_received := m_received B @
                        [Activate, ApplyImpulse (rM *\<^sub>R ((1 - mr) *\<^sub>R (- velDiff))) rel]\<rparr>)\<rparr>)"
    unfolding rM_def mr_def anchorPos_def rel_def velDiff_def
    by (simp add: solve_def solve_velocity_valid [of a b e w B E] getWorldTransform_def
        getInvMass_def getCenterOfMassPosition_def getVelocityInLocalPoint_def)
qed

theorem solve_never_checks_dt_witness:
  "solve False (- 2) example_anchor (example_world (1 / 2) 2 (btVector3 0 1 0)) \<noteq> Inl AssertionFailure \<and>
   solve False (- 2) example_anchor (example_world (1 / 2) 2 (btVector3 0 1 0)) =
     Inr (example_anchor,
       \<lparr>bodies = [0 \<mapsto> (example_body (1 / 2))\<lparr>m_received :=
           [Activate, ApplyImpulse (btVector3 0 (- 2) 0) (btVector3 0 1 0)]\<rparr>],
        elements = [0 \<mapsto> (example_node 2 (btVector3 0 1 0))\<lparr>force := btVector3 (1 / 4) 1 0\<rparr>]\<rparr>) \<and>
   solve True (- 2) example_anchor (example_world (1 / 2) 2 (btVector3 0 1 0)) =
     Inr (example_anchor,
       \<lparr>bodies = [0 \<mapsto> (example_body (1 / 2))\<lparr>m_received :=
           [Activate, ApplyImpulse (btVector3 1 0 (- 4)) (btVector3 0 1 0)]\<rparr>],
        elements = [0 \<mapsto> (example_node 2 (btVector3 0 1 0))\<lparr>force := btVector3 (1 / 2) 1 (- 2)\<rparr>]\<rparr>)"
proof -
  note at_scene = solve_never_checks_dt [where SOLVE_VELOCITY = False and dt = "- 2"
      and a = example_anchor and w = "example_world (1 / 2) 2 (btVector3 0 1 0)"
      and b = 0 and e = 0 and B = "example_body (1 / 2)"
      and E = "example_node 2 (btVector3 0 1 0)"]
  have live: "attachedBody example_anchor = Some 0 \<and> m_attachedElement example_anchor = Some 0 \<and>
      bodies (example_world (1 / 2) 2 (btVector3 0 1 0)) 0 = Some (example_body (1 / 2)) \<and>
      elements (example_world (1 / 2) 2 (btVector3 0 1 0)) 0 = Some (example_node 2 (btVector3 0 1 0))"
    by (simp add: example_scene)
  have negative: "(- 2 :: real) < 0"
    by simp
  note applied = at_scene [THEN conjunct2, THEN mp, OF live, THEN conjunct2, THEN mp, OF negative]
  have no_assertion: "solve False (- 2) example_anchor (example_world (1 / 2) 2 (btVector3 0 1 0)) \<noteq>
      Inl AssertionFailure"
    unfolding at_scene [THEN conjunct1] by (simp add: example_anchor_def)
  have position: "solve False (- 2) example_anchor (example_world (1 / 2) 2 (btVector3 0 1 0)) =
     Inr (example_anchor,
       \<lparr>bodies = [0 \<mapsto> (example_body (1 / 2))\<lparr>m_received :=
           [Activate, ApplyImpulse (btVector3 0 (- 2) 0) (btVector3 0 1 0)]\<rparr>],
        elements = [0 \<mapsto> (example_node 2 (btVector3 0 1 0))\<lparr>force := btVector3 (1 / 4) 1 0\<rparr>]\<rparr>)"
    unfolding applied [THEN conjunct1] by (simp add: example_eval)
  have velocity: "solve True (- 2) example_anchor (example_world (1 / 2) 2 (btVector3 0 1 0)) =
     Inr (example_anchor,
       \<lparr>bodies = [0 \<mapsto> (example_body (1 / 2))\<lparr>m_received :=
           [Activate, ApplyImpulse (btVector3 1 0 (- 4)) (btVector3 0 1 0)]\<rparr>],
        elements = [0 \<mapsto> (example_node 2 (btVector3 0 1 0))\<lparr>force := btVector3 (1 / 2) 1 (- 2)\<rparr>]\<rparr>)"
    unfolding applied [THEN conjunct2] by (simp add: example_eval)
  from no_assertion position velocity show ?thesis
    by blast
qed

section \<open>The force on the flexible node\<close>

text \<open>
  C3. In position-based mode with \<open>dt > 0\<close>, \<^verbatim>\<open>solve(dt)\<close> adds to the node's force
  accumulator exactly \<open>(1/dt)\<^sup>2 * nodeMass * massRatio * posDiff\<close>, where \<open>posDiff\<close> is the
  anchor's world position on the rigid body minus the node's predicted position; nothing
  else of the node changes. With \<open>posDiff = (1, 0, 0)\<close>, \<open>nodeMass = 2\<close>,
  \<open>massRatio = 1/2\<close> and \<open>dt = 1/100\<close> the force is \<open>(10000, 0, 0)\<close> (the witness).
\<close>

theorem solve_position_node_force:
  fixes dt :: real
  assumes "0 < dt"
    and "attachedBody a = Some b" and "m_attachedElement a = Some e"
    and "bodies w b = Some B" and "elements w e = Some E"
  defines "posDiff \<equiv>
    transform_apply (getWorldTransform B) (attachedRelativeOriginalPosition a) - pos_new E"
  shows "\<exists>w'. solve False dt a w = Inr (a, w') \<and>
    elements w' e =
      Some (E\<lparr>force := force E +
        ((1 / dt)\<^sup>2 * mass E * massRatio (rMass (getInvMass B)) (mass E)) *\<^sub>R posDiff\<rparr>)"
  unfolding posDiff_def
  by (simp add: solve_def solve_position_valid [OF assms(2-5)] getWorldTransform_def
      getInvMass_def)

theorem solve_position_node_force_witness:
  "\<exists>w'. solve False (1 / 100) example_anchor (example_world (1 / 2) 2 0) = Inr (example_anchor, w') \<and>
     massRatio (rMass (1 / 2)) 2 = 1 / 2 \<and>
     btVector3 1 3 3 - pos_new (example_node 2 0) = btVector3 1 0 0 \<and>
     map_option force (elements w' 0) = Some (btVector3 10000 0 0)"
proof -
  note scene = example_scene(1,2) example_scene(3,4) [of "1 / 2" 2 0]
  have ratio: "massRatio (rMass (1 / 2)) 2 = 1 / 2"
    by (simp add: rMass_def massRatio_def)
  have diff: "btVector3 1 3 3 - pos_new (example_node 2 0) = btVector3 1 0 0"
    by (simp add: example_node_def minus_btVector3_def)
  have "(0::real) < 1 / 100"
    by simp
  from solve_position_node_force [OF this scene]
  obtain w' where run: "solve False (1 / 100) example_anchor (example_world (1 / 2) 2 0) = Inr (example_anchor, w')"
    and node: "elements w' 0 = Some ((example_node 2 0)\<lparr>force := force (example_node 2 0) +
        ((1 / (1 / 100))\<^sup>2 * mass (example_node 2 0) *
          massRatio (rMass (getInvMass (example_body (1 / 2)))) (mass (example_node 2 0))) *\<^sub>R
        (transform_apply (getWorldTransform (example_body (1 / 2)))
           (attachedRelativeOriginalPosition example_anchor) - pos_new (example_node 2 0))\<rparr>)"
    by blast
  have "map_option force (elements w' 0) = Some (btVector3 10000 0 0)"
    unfolding node example_anchor_position diff
    by (simp add: example_node_def example_body_def getInvMass_def rMass_def massRatio_def
        zero_btVector3_def plus_btVector3_def scaleR_btVector3_def)
  with run ratio diff show ?thesis
    by blast
qed

section \<open>The impulse on the rigid body\<close>

text \<open>
  C4. In position-based mode with \<open>dt > 0\<close>, \<^verbatim>\<open>solve(dt)\<close> activates the rigid body
  and then applies to it, at the anchor's world position minus the centre-of-mass
  position, the impulse \<open>(1/dt) * rMass * rRigid + nodeForce * dt\<close> with
  \<open>rRigid = - posDiff * (1 - massRatio)\<close>; \<open>nodeForce\<close> is the node's force accumulator as
  the call leaves it.
\<close>

theorem solve_position_rigid_impulse:
  fixes dt :: real
  assumes "0 < dt"
    and "attachedBody a = Some b" and "m_attachedElement a = Some e"
    and "bodies w b = Some B" and "elements w e = Some E"
  defines "anchorPos \<equiv> transform_apply (getWorldTransform B) (attachedRelativeOriginalPosition a)"
  defines "posDiff \<equiv> anchorPos - pos_new E"
  defines "rM \<equiv> rMass (getInvMass B)"
  defines "rRigid \<equiv> (1 - massRatio rM (mass E)) *\<^sub>R (- posDiff)"
  shows "\<exists>w' E'. solve False dt a w = Inr (a, w') \<and>
    elements w' e = Some E' \<and>
    bodies w' b =
      Some (B\<lparr>m_received := m_received B @
        [Activate,
         ApplyImpulse ((1 / dt * rM) *\<^sub>R rRigid + dt *\<^sub>R force E')
           (anchorPos - getCenterOfMassPosition B)]\<rparr>)"
  unfolding anchorPos_def posDiff_def rM_def rRigid_def
  by (simp add: solve_def solve_position_valid [OF assms(2-5)] getWorldTransform_def
      getInvMass_def getCenterOfMassPosition_def)

theorem solve_position_rigid_impulse_witness:
  "\<exists>w'. solve False (1 / 2) example_anchor (example_world (1 / 2) 2 (btVector3 0 1 0)) =
       Inr (example_anchor, w') \<and>
     map_option force (elements w' 0) = Some (btVector3 4 1 0) \<and>
     map_option m_received (bodies w' 0) =
       Some [Activate, ApplyImpulse (btVector3 0 (1 / 2) 0) (btVector3 0 1 0)]"
proof -
  have "(0::real) < 1 / 2"
    by simp
  from solve_position_rigid_impulse [OF this example_scene, of "1 / 2" 2 "btVector3 0 1 0"]
  obtain w' E' where run: "solve False (1 / 2) example_anchor (example_world (1 / 2) 2 (btVector3 0 1 0)) =
       Inr (example_anchor, w')"
    and node: "elements w' 0 = Some E'"
    and body: "bodies w' 0 = Some ((example_body (1 / 2))\<lparr>m_received := m_received (example_body (1 / 2)) @
        [Activate,
         ApplyImpulse ((1 / (1 / 2) * rMass (getInvMass (example_body (1 / 2)))) *\<^sub>R
             ((1 - massRatio (rMass (getInvMass (example_body (1 / 2)))) (mass (example_node 2 (btVector3 0 1 0)))) *\<^sub>R
               (- (transform_apply (getWorldTransform (example_body (1 / 2)))
                     (attachedRelativeOriginalPosition example_anchor) -
                   pos_new (example_node 2 (btVector3 0 1 0))))) +
             (1 / 2) *\<^sub>R force E')
           (transform_apply (getWorldTransform (example_body (1 / 2)))
              (attachedRelativeOriginalPosition example_anchor) -
            getCenterOfMassPosition (example_body (1 / 2)))]\<rparr>)"
    by blast
  from run node have force: "force E' = btVector3 4 1 0"
    unfolding example_solve_position
    by (auto simp add: example_node_def rMass_def massRatio_def plus_btVector3_def
        scaleR_btVector3_def power2_eq_square)
  have ratio: "rMass (getInvMass (example_body (1 / 2))) = 2"
    "massRatio 2 (mass (example_node 2 (btVector3 0 1 0))) = 1 / 2"
    by (simp_all add: getInvMass_def example_body_def example_node_def rMass_def massRatio_def)
  have "map_option m_received (bodies w' 0) =
       Some [Activate, ApplyImpulse (btVector3 0 (1 / 2) 0) (btVector3 0 1 0)]"
    unfolding body example_anchor_position force ratio
    by (simp add: example_node_def example_body_def getCenterOfMassPosition_def
        plus_btVector3_def minus_btVector3_def uminus_btVector3_def scaleR_btVector3_def)
  with run node force show ?thesis
    by auto
qed

section \<open>Mass ratio\<close>

text \<open>
  C5. In every call to solve, in either branch, the mass ratio is
  \<open>rMass / (rMass + nodeMass)\<close> when the effective rigid mass \<open>rMass = 1 / inverseMass\<close> is
  positive, exactly \<open>1\<close> (with effective rigid mass \<open>0\<close>) when the inverse mass is \<open>0\<close>, and
  exactly \<open>1/2\<close> when body and node have the same positive mass. The ratio is a local of
  the call; it is read off what the call does: the force added to the node is the
  disagreement scaled by the ratio, the rigid share of the impulse is the disagreement
  scaled by one minus the ratio, and the call is pinned to exactly that outcome.
\<close>

theorem solve_mass_ratio:
  fixes dt :: real and a :: cordeAnchor and B :: btRigidBody and E :: CordePositionElement
    and w :: world and b e :: nat
  assumes "dt \<noteq> 0"
    and "attachedBody a = Some b" and "m_attachedElement a = Some e"
    and "bodies w b = Some B" and "elements w e = Some E"
  defines "anchorPos \<equiv> transform_apply (getWorldTransform B) (attachedRelativeOriginalPosition a)"
  defines "rel \<equiv> anchorPos - getCenterOfMassPosition B"
  defines "posDiff \<equiv> anchorPos - pos_new E"
  defines "velDiff \<equiv> getVelocityInLocalPoint B rel - vel_new E"
  defines "position_with \<equiv> \<lambda>ratio rigidMass.
    solve False dt a w =
      Inr (a, w\<lparr>elements := (elements w)(e \<mapsto>
                  E\<lparr>force := force E + ((1 / dt)\<^sup>2 * mass E) *\<^sub>R (ratio *\<^sub>R posDiff)\<rparr>),
                bodies := (bodies w)(b \<mapsto> B\<lparr>m_received := m_received B @
                  [Activate,
                   ApplyImpulse
                     ((1 / dt * rigidMass) *\<^sub>R ((1 - ratio) *\<^sub>R (- posDiff)) +
                      dt *\<^sub>R (force E + ((1 / dt)\<^sup>2 * mass E) *\<^sub>R (ratio *\<^sub>R posDiff)))
                     rel]\<rparr>)\<rparr>)"
  defines "velocity_with \<equiv> \<lambda>ratio rigidMass.
    solve True dt a w =
      Inr (a, w\<lparr>elements := (elements w)(e \<mapsto>
                  E\<lparr>force := force E + (1 / dt * mass E) *\<^sub>R (ratio *\<^sub>R velDiff)\<rparr>),
                bodies := (bodies w)(b \<mapsto> B\<lparr>m_received := m_received B @
                  [Activate, ApplyImpulse (rigidMass *\<^sub>R ((1 - ratio) *\<^sub>R (- velDiff))) rel]\<rparr>)\<rparr>)"
  shows "(0 < getInvMass B \<longrightarrow>
       position_with ((1 / getInvMass B) / (1 / getInvMass B + mass E)) (1 / getInvMass B) \<and>
       velocity_with ((1 / getInvMass B) / (1 / getInvMass B + mass E)) (1 / getInvMass B)) \<and>
    (getInvMass B = 0 \<longrightarrow> position_with 1 0 \<and> velocity_with 1 0) \<and>
    (0 < getInvMass B \<and> mass E = 1 / getInvMass B \<longrightarrow>
       position_with (1 / 2) (1 / getInvMass B) \<and> velocity_with (1 / 2) (1 / getInvMass B))"
proof -
  have position: "position_with (massRatio (rMass (getInvMass B)) (mass E)) (rMass (getInvMass B))"
    unfolding position_with_def anchorPos_def rel_def posDiff_def
    by (simp add: solve_def solve_position_valid [OF assms(2-5)] getWorldTransform_def
        getInvMass_def getCenterOfMassPosition_def)
  have velocity: "velocity_with (massRatio (rMass (getInvMass B)) (mass E)) (rMass (getInvMass B))"
    unfolding velocity_with_def anchorPos_def rel_def velDiff_def
    by (simp add: solve_def solve_velocity_valid [OF assms(2-5)] getWorldTransform_def
        getInvMass_def getCenterOfMassPosition_def getVelocityInLocalPoint_def)
  note cases = massRatio_cases [of "getInvMass B" "mass E"]
  show ?thesis
  proof (intro conjI impI)
    assume "0 < getInvMass B"
    with cases have rigid: "rMass (getInvMass B) = 1 / getInvMass B"
      and "massRatio (rMass (getInvMass B)) (mass E) =
        rMass (getInvMass B) / (rMass (getInvMass B) + mass E)"
      by blast+
    then have ratio: "massRatio (1 / getInvMass B) (mass E) =
        (1 / getInvMass B) / (1 / getInvMass B + mass E)"
      by (simp only: rigid)
    from position
    show "position_with ((1 / getInvMass B) / (1 / getInvMass B + mass E)) (1 / getInvMass B)"
      by (simp only: rigid ratio)
    from velocity
    show "velocity_with ((1 / getInvMass B) / (1 / getInvMass B + mass E)) (1 / getInvMass B)"
      by (simp only: rigid ratio)
  next
    assume "getInvMass B = 0"
    with cases have rigid: "rMass (getInvMass B) = 0"
      and "massRatio (rMass (getInvMass B)) (mass E) = 1"
      by blast+
    then have ratio: "massRatio 0 (mass E) = 1"
      by (simp only: rigid)
    from position show "position_with 1 0"
      by (simp only: rigid ratio)
    from velocity show "velocity_with 1 0"
      by (simp only: rigid ratio)
  next
    assume equal: "0 < getInvMass B \<and> mass E = 1 / getInvMass B"
    with cases have rigid: "rMass (getInvMass B) = 1 / getInvMass B"
      and "massRatio (rMass (getInvMass B)) (mass E) = 1 / 2"
      by blast+
    then have ratio: "massRatio (1 / getInvMass B) (mass E) = 1 / 2"
      by (simp only: rigid)
    from position show "position_with (1 / 2) (1 / getInvMass B)"
      by (simp only: rigid ratio)
    from velocity show "velocity_with (1 / 2) (1 / getInvMass B)"
      by (simp only: rigid ratio)
  qed
qed

theorem solve_mass_ratio_witness:
  "solve False (1 / 2) example_anchor (example_world (1 / 2) 2 0) =
     Inr (example_anchor,
       \<lparr>bodies = [0 \<mapsto> (example_body (1 / 2))\<lparr>m_received :=
           [Activate, ApplyImpulse (btVector3 0 0 0) (btVector3 0 1 0)]\<rparr>],
        elements = [0 \<mapsto> (example_node 2 0)\<lparr>force := btVector3 4 0 0\<rparr>]\<rparr>) \<and>
   solve True (1 / 2) example_anchor (example_world (1 / 2) 2 0) =
     Inr (example_anchor,
       \<lparr>bodies = [0 \<mapsto> (example_body (1 / 2))\<lparr>m_received :=
           [Activate, ApplyImpulse (btVector3 1 0 (- 4)) (btVector3 0 1 0)]\<rparr>],
        elements = [0 \<mapsto> (example_node 2 0)\<lparr>force := btVector3 (- 2) 0 8\<rparr>]\<rparr>) \<and>
   solve False (1 / 2) example_anchor (example_world 0 2 0) =
     Inr (example_anchor,
       \<lparr>bodies = [0 \<mapsto> (example_body 0)\<lparr>m_received :=
           [Activate, ApplyImpulse (btVector3 4 0 0) (btVector3 0 1 0)]\<rparr>],
        elements = [0 \<mapsto> (example_node 2 0)\<lparr>force := btVector3 8 0 0\<rparr>]\<rparr>) \<and>
   solve True (1 / 2) example_anchor (example_world 0 2 0) =
     Inr (example_anchor,
       \<lparr>bodies = [0 \<mapsto> (example_body 0)\<lparr>m_received :=
           [Activate, ApplyImpulse (btVector3 0 0 0) (btVector3 0 1 0)]\<rparr>],
        elements = [0 \<mapsto> (example_node 2 0)\<lparr>force := btVector3 (- 4) 0 16\<rparr>]\<rparr>) \<and>
   solve False (1 / 2) example_anchor (example_world (1 / 4) 12 0) =
     Inr (example_anchor,
       \<lparr>bodies = [0 \<mapsto> (example_body (1 / 4))\<lparr>m_received :=
           [Activate, ApplyImpulse (btVector3 0 0 0) (btVector3 0 1 0)]\<rparr>],
        elements = [0 \<mapsto> (example_node 12 0)\<lparr>force := btVector3 12 0 0\<rparr>]\<rparr>)"
proof -
  have step: "(1 / 2 :: real) \<noteq> 0"
    by simp
  note equal_scene =
    solve_mass_ratio [OF step example_scene(1,2) example_scene(3,4) [of "1 / 2" 2 0]]
  note immovable_scene =
    solve_mass_ratio [OF step example_scene(1,2) example_scene(3,4) [of 0 2 0]]
  note heavy_node_scene =
    solve_mass_ratio [OF step example_scene(1,2) example_scene(3,4) [of "1 / 4" 12 0]]
  have equal_mass: "0 < getInvMass (example_body (1 / 2)) \<and>
      mass (example_node 2 0) = 1 / getInvMass (example_body (1 / 2))"
    by (simp add: getInvMass_def example_body_def example_node_def)
  have immovable: "getInvMass (example_body 0) = 0"
    by (simp add: getInvMass_def example_body_def)
  have movable: "0 < getInvMass (example_body (1 / 4))"
    by (simp add: getInvMass_def example_body_def)
  note equal_applied = equal_scene [THEN conjunct2, THEN conjunct2, THEN mp, OF equal_mass]
  note immovable_applied = immovable_scene [THEN conjunct2, THEN conjunct1, THEN mp, OF immovable]
  note heavy_applied = heavy_node_scene [THEN conjunct1, THEN mp, OF movable]
  have "solve False (1 / 2) example_anchor (example_world (1 / 2) 2 0) =
     Inr (example_anchor,
       \<lparr>bodies = [0 \<mapsto> (example_body (1 / 2))\<lparr>m_received :=
           [Activate, ApplyImpulse (btVector3 0 0 0) (btVector3 0 1 0)]\<rparr>],
        elements = [0 \<mapsto> (example_node 2 0)\<lparr>force := btVector3 4 0 0\<rparr>]\<rparr>)"
    unfolding equal_applied [THEN conjunct1] by (simp add: example_eval)
  moreover have "solve True (1 / 2) example_anchor (example_world (1 / 2) 2 0) =
     Inr (example_anchor,
       \<lparr>bodies = [0 \<mapsto> (example_body (1 / 2))\<lparr>m_received :=
           [Activate, ApplyImpulse (btVector3 1 0 (- 4)) (btVector3 0 1 0)]\<rparr>],
        elements = [0 \<mapsto> (example_node 2 0)\<lparr>force := btVector3 (- 2) 0 8\<rparr>]\<rparr>)"
    unfolding equal_applied [THEN conjunct2] by (simp add: example_eval)
  moreover have "solve False (1 / 2) example_anchor (example_world 0 2 0) =
     Inr (example_anchor,
       \<lparr>bodies = [0 \<mapsto> (example_body 0)\<lparr>m_received :=
           [Activate, ApplyImpulse (btVector3 4 0 0) (btVector3 0 1 0)]\<rparr>],
        elements = [0 \<mapsto> (example_node 2 0)\<lparr>force := btVector3 8 0 0\<rparr>]\<rparr>)"
    unfolding immovable_applied [THEN conjunct1] by (simp add: example_eval)
  moreover have "solve True (1 / 2) example_anchor (example_world 0 2 0) =
     Inr (example_anchor,
       \<lparr>bodies = [0 \<mapsto> (example_body 0)\<lparr>m_received :=
           [Activate, ApplyImpulse (btVector3 0 0 0) (btVector3 0 1 0)]\<rparr>],
        elements = [0 \<mapsto> (example_node 2 0)\<lparr>force := btVector3 (- 4) 0 16\<rparr>]\<rparr>)"
    unfolding immovable_applied [THEN conjunct2] by (simp add: example_eval)
  moreover have "solve False (1 / 2) example_anchor (example_world (1 / 4) 12 0) =
     Inr (example_anchor,
       \<lparr>bodies = [0 \<mapsto> (example_body (1 / 4))\<lparr>m_received :=
           [Activate, ApplyImpulse (btVector3 0 0 0) (btVector3 0 1 0)]\<rparr>],
        elements = [0 \<mapsto> (example_node 12 0)\<lparr>force := btVector3 12 0 0\<rparr>]\<rparr>)"
    unfolding heavy_applied [THEN conjunct1] by (simp add: example_eval)
  ultimately show ?thesis
    by blast
qed

section \<open>The anchor point right after construction\<close>

text \<open>
  C6. An anchor constructed at the world point \<open>p\<close> on a body whose world transform is
  a rotation plus a translation reports \<open>p\<close> as its world position for as long as the
  body's world transform is the one it had at construction.
\<close>

theorem getWorldPosition_after_construction:
  assumes "bodies w b = Some B" and "elements w e = Some E"
    and "orthonormal (m_basis (getWorldTransform B))"
  shows "\<exists>a w1. cordeAnchor_ctor (Some b) (Some e) (Some q) worldPos w = Inr (a, w1) \<and>
    getWorldPosition a w1 = Inr worldPos \<and>
    (\<forall>w2 B2. bodies w2 b = Some B2 \<and> getWorldTransform B2 = getWorldTransform B \<longrightarrow>
       getWorldPosition a w2 = Inr worldPos)"
  using assms(1,3)
  by (auto simp add: cordeAnchor_ctor_valid [OF assms(1,2)] getWorldPosition_def deref_def
      getWorldTransform_def transform_roundtrip)

theorem getWorldPosition_after_construction_witness:
  "orthonormal (m_basis (getWorldTransform (example_body 1))) \<and>
   (\<exists>a w1. cordeAnchor_ctor (Some 0) (Some 0) (Some 0) (btVector3 1 3 3) (example_world 1 2 0) =
       Inr (a, w1) \<and>
     attachedRelativeOriginalPosition a = btVector3 1 0 0 \<and>
     getWorldPosition a w1 = Inr (btVector3 1 3 3))"
proof -
  from getWorldPosition_after_construction [OF example_scene(3,4) [of 1 2 0] example_orthonormal,
      where q = 0 and worldPos = "btVector3 1 3 3"]
  obtain a w1 where ctor: "cordeAnchor_ctor (Some 0) (Some 0) (Some 0) (btVector3 1 3 3)
        (example_world 1 2 0) = Inr (a, w1)"
    and pos: "getWorldPosition a w1 = Inr (btVector3 1 3 3)"
    by blast
  from ctor have "attachedRelativeOriginalPosition a = btVector3 1 0 0"
    by (simp add: cordeAnchor_ctor_valid [OF example_scene(3,4)])
      (auto simp add: example_body_def quarter_turn_def transform_apply_def
        transform_inverse_def Let_def transpose3_def mat_vec_def dot_def
        plus_btVector3_def uminus_btVector3_def)
  with ctor pos example_orthonormal show ?thesis
    by blast
qed

section \<open>The velocity-based branch\<close>

text \<open>
  C7. In velocity-based mode with \<open>dt > 0\<close>, \<^verbatim>\<open>solve(dt)\<close> takes the velocity
  disagreement (the body's velocity at the anchor point minus the node's predicted
  velocity), adds the force \<open>(1/dt) * nodeMass * (massRatio * velDiff)\<close> to the node and,
  after activating the body, applies the impulse \<open>rMass * (- velDiff * (1 - massRatio))\<close>
  to it, with no share of the node's own force in it.
\<close>

theorem solve_velocity_force_and_impulse:
  fixes dt :: real
  assumes "0 < dt"
    and "attachedBody a = Some b" and "m_attachedElement a = Some e"
    and "bodies w b = Some B" and "elements w e = Some E"
  defines "rel \<equiv>
    transform_apply (getWorldTransform B) (attachedRelativeOriginalPosition a) -
    getCenterOfMassPosition B"
  defines "velDiff \<equiv> getVelocityInLocalPoint B rel - vel_new E"
  defines "rM \<equiv> rMass (getInvMass B)"
  defines "mr \<equiv> massRatio rM (mass E)"
  shows "\<exists>w'. solve True dt a w = Inr (a, w') \<and>
    elements w' e = Some (E\<lparr>force := force E + (1 / dt * mass E) *\<^sub>R (mr *\<^sub>R velDiff)\<rparr>) \<and>
    bodies w' b =
      Some (B\<lparr>m_received := m_received B @
        [Activate, ApplyImpulse (rM *\<^sub>R ((1 - mr) *\<^sub>R (- velDiff))) rel]\<rparr>)"
  unfolding rel_def velDiff_def rM_def mr_def
  by (simp add: solve_def solve_velocity_valid [OF assms(2-5)] getWorldTransform_def
      getInvMass_def getCenterOfMassPosition_def getVelocityInLocalPoint_def)

theorem solve_velocity_force_and_impulse_witness:
  "\<exists>w'. solve True (1 / 2) example_anchor (example_world (1 / 2) 2 (btVector3 0 1 0)) =
       Inr (example_anchor, w') \<and>
     getVelocityInLocalPoint (example_body (1 / 2)) (btVector3 0 1 0) -
       vel_new (example_node 2 (btVector3 0 1 0)) = btVector3 (- 1) 0 4 \<and>
     map_option force (elements w' 0) = Some (btVector3 (- 2) 1 8) \<and>
     map_option m_received (bodies w' 0) =
       Some [Activate, ApplyImpulse (btVector3 1 0 (- 4)) (btVector3 0 1 0)]"
proof -
  have "(0::real) < 1 / 2"
    by simp
  from solve_velocity_force_and_impulse [OF this example_scene, of "1 / 2" 2 "btVector3 0 1 0"]
  obtain w' where run: "solve True (1 / 2) example_anchor (example_world (1 / 2) 2 (btVector3 0 1 0)) =
       Inr (example_anchor, w')"
    and node: "elements w' 0 =
       Some ((example_node 2 (btVector3 0 1 0))\<lparr>force := force (example_node 2 (btVector3 0 1 0)) +
         (1 / (1 / 2) * mass (example_node 2 (btVector3 0 1 0))) *\<^sub>R
         (massRatio (rMass (getInvMass (example_body (1 / 2)))) (mass (example_node 2 (btVector3 0 1 0))) *\<^sub>R
          (getVelocityInLocalPoint (example_body (1 / 2))
             (transform_apply (getWorldTransform (example_body (1 / 2)))
                (attachedRelativeOriginalPosition example_anchor) -
              getCenterOfMassPosition (example_body (1 / 2))) -
           vel_new (example_node 2 (btVector3 0 1 0))))\<rparr>)"
    and body: "bodies w' 0 =
       Some ((example_body (1 / 2))\<lparr>m_received := m_received (example_body (1 / 2)) @
         [Activate,
          ApplyImpulse
            (rMass (getInvMass (example_body (1 / 2))) *\<^sub>R
             ((1 - massRatio (rMass (getInvMass (example_body (1 / 2))))
                    (mass (example_node 2 (btVector3 0 1 0)))) *\<^sub>R
              (- (getVelocityInLocalPoint (example_body (1 / 2))
                    (transform_apply (getWorldTransform (example_body (1 / 2)))
                       (attachedRelativeOriginalPosition example_anchor) -
                     getCenterOfMassPosition (example_body (1 / 2))) -
                  vel_new (example_node 2 (btVector3 0 1 0))))))
            (transform_apply (getWorldTransform (example_body (1 / 2)))
               (attachedRelativeOriginalPosition example_anchor) -
             getCenterOfMassPosition (example_body (1 / 2)))]\<rparr>)"
    by blast
  have rel: "btVector3 1 3 3 - getCenterOfMassPosition (example_body (1 / 2)) = btVector3 0 1 0"
    by (simp add: getCenterOfMassPosition_def example_body_def minus_btVector3_def)
  have velDiff: "getVelocityInLocalPoint (example_body (1 / 2)) (btVector3 0 1 0) -
       vel_new (example_node 2 (btVector3 0 1 0)) = btVector3 (- 1) 0 4"
    by (simp add: getVelocityInLocalPoint_def example_body_def example_node_def cross_def
        plus_btVector3_def minus_btVector3_def)
  have ratio: "rMass (getInvMass (example_body (1 / 2))) = 2"
    "massRatio 2 (mass (example_node 2 (btVector3 0 1 0))) = 1 / 2"
    by (simp_all add: getInvMass_def example_body_def example_node_def rMass_def massRatio_def)
  have "map_option force (elements w' 0) = Some (btVector3 (- 2) 1 8)"
    unfolding node example_anchor_position rel velDiff ratio
    by (simp add: example_node_def plus_btVector3_def scaleR_btVector3_def)
  moreover have "map_option m_received (bodies w' 0) =
       Some [Activate, ApplyImpulse (btVector3 1 0 (- 4)) (btVector3 0 1 0)]"
    unfolding body example_anchor_position rel velDiff ratio
    by (simp add: example_node_def example_body_def uminus_btVector3_def scaleR_btVector3_def)
  ultimately show ?thesis
    using run velDiff by blast
qed

section \<open>The is-anchor flag\<close>

text \<open>
  C8. Constructing an anchor sets the node's is-anchor flag, and the destructor clears
  it: whatever has been constructed on or destroyed from that node in between, the flag
  is false once the destructor has run.
\<close>

theorem anchor_flag:
  assumes "bodies w b = Some B" and "elements w e = Some E"
  shows "\<exists>a w1. cordeAnchor_ctor (Some b) (Some e) (Some q) worldPos w = Inr (a, w1) \<and>
    elements w1 e = Some (E\<lparr>isAnchor := True\<rparr>) \<and>
    (\<forall>w2 E2. elements w2 e = Some E2 \<longrightarrow>
       (\<exists>a' w3. cordeAnchor_dtor a w2 = Inr (a', w3) \<and>
          elements w3 e = Some (E2\<lparr>isAnchor := False\<rparr>)))"
  by (simp add: cordeAnchor_ctor_valid [OF assms] cordeAnchor_dtor_valid)

theorem anchor_flag_witness:
  "\<exists>a1 w1 a2 w2 a' w3.
     cordeAnchor_ctor (Some 0) (Some 0) (Some 0) (btVector3 1 3 3) (example_world 1 2 0) = Inr (a1, w1) \<and>
     map_option isAnchor (elements w1 0) = Some True \<and>
     cordeAnchor_ctor (Some 0) (Some 0) (Some 1) (btVector3 1 2 3) w1 = Inr (a2, w2) \<and>
     map_option isAnchor (elements w2 0) = Some True \<and>
     cordeAnchor_dtor a1 w2 = Inr (a', w3) \<and>
     map_option isAnchor (elements w3 0) = Some False"
proof -
  from anchor_flag [OF example_scene(3,4) [of 1 2 0], where q = 0 and worldPos = "btVector3 1 3 3"]
  obtain a1 w1 where ctor1: "cordeAnchor_ctor (Some 0) (Some 0) (Some 0) (btVector3 1 3 3)
        (example_world 1 2 0) = Inr (a1, w1)"
    and flag1: "elements w1 0 = Some ((example_node 2 0)\<lparr>isAnchor := True\<rparr>)"
    and dtor1: "\<And>w2 E2. elements w2 0 = Some E2 \<Longrightarrow>
       \<exists>a' w3. cordeAnchor_dtor a1 w2 = Inr (a', w3) \<and>
          elements w3 0 = Some (E2\<lparr>isAnchor := False\<rparr>)"
    by blast
  from ctor1 have body1: "bodies w1 0 = Some (example_body 1)"
    unfolding cordeAnchor_ctor_valid [OF example_scene(3,4)]
    by (auto simp add: example_world_def)
  define a2 where "a2 = \<lparr>attachedBody = Some 0, m_attachedElement = Some 0,
      m_attachedQuaternion = Some 1,
      attachedRelativeOriginalPosition =
        transform_apply (transform_inverse (m_worldTransform (example_body 1))) (btVector3 1 2 3)\<rparr>"
  define w2 where "w2 = w1\<lparr>elements := (elements w1)(0 \<mapsto>
      (example_node 2 0)\<lparr>isAnchor := True, isAnchor := True\<rparr>)\<rparr>"
  have ctor2: "cordeAnchor_ctor (Some 0) (Some 0) (Some 1) (btVector3 1 2 3) w1 = Inr (a2, w2)"
    unfolding a2_def w2_def by (rule cordeAnchor_ctor_valid [OF body1 flag1])
  have flag2: "elements w2 0 = Some ((example_node 2 0)\<lparr>isAnchor := True\<rparr>)"
    by (simp add: w2_def)
  from dtor1 [OF flag2] obtain a' w3 where dtor: "cordeAnchor_dtor a1 w2 = Inr (a', w3)"
    and flag3: "elements w3 0 = Some ((example_node 2 0)\<lparr>isAnchor := True, isAnchor := False\<rparr>)"
    by blast
  from flag1 flag2 flag3 have "map_option isAnchor (elements w1 0) = Some True"
    "map_option isAnchor (elements w2 0) = Some True"
    "map_option isAnchor (elements w3 0) = Some False"
    by simp_all
  with ctor1 ctor2 dtor show ?thesis
    by blast
qed

section \<open>The rest offset\<close>

text \<open>
  C9. The rest offset is the construction-time world transform, inverted, applied to
  the world anchor point, and no later call of \<^verbatim>\<open>solve\<close>, \<^verbatim>\<open>getWorldPosition\<close> or
  \<^verbatim>\<open>getRelativePosition\<close> changes it, whatever the rest of the simulation does to the
  world between the calls.
\<close>

theorem restOffset_fixed:
  assumes "bodies w0 b = Some B"
    and "cordeAnchor_ctor (Some b) element qElement worldPos w0 = Inr (a0, w1)"
    and "run_events SOLVE_VELOCITY evs (a0, w1) = Inr (a, w)"
  shows "attachedRelativeOriginalPosition a0 =
      transform_apply (transform_inverse (getWorldTransform B)) worldPos \<and>
    attachedRelativeOriginalPosition a = attachedRelativeOriginalPosition a0"
proof
  from assms(1,2) show "attachedRelativeOriginalPosition a0 =
      transform_apply (transform_inverse (getWorldTransform B)) worldPos"
    by (auto simp add: cordeAnchor_ctor_def deref_def Let_def split: sum.splits if_splits)
  from assms(3) have "a = a0"
    by (rule run_events_keeps_anchor)
  then show "attachedRelativeOriginalPosition a = attachedRelativeOriginalPosition a0"
    by simp
qed

theorem restOffset_fixed_witness:
  "\<exists>a0 w1 a w.
     cordeAnchor_ctor (Some 0) (Some 0) (Some 0) (btVector3 1 3 3) (example_world 1 2 0) = Inr (a0, w1) \<and>
     run_events False
       [Solve (1 / 2), GetWorldPosition, Elsewhere example_move, GetRelativePosition, Solve (1 / 4)]
       (a0, w1) = Inr (a, w) \<and>
     attachedRelativeOriginalPosition a0 = btVector3 1 0 0 \<and>
     attachedRelativeOriginalPosition a = btVector3 1 0 0"
proof -
  define a0 where "a0 = \<lparr>attachedBody = Some 0, m_attachedElement = Some 0,
      m_attachedQuaternion = Some 0,
      attachedRelativeOriginalPosition =
        transform_apply (transform_inverse (m_worldTransform (example_body 1))) (btVector3 1 3 3)\<rparr>"
  define w1 where "w1 = (example_world 1 2 0)\<lparr>elements :=
      (elements (example_world 1 2 0))(0 \<mapsto> (example_node 2 0)\<lparr>isAnchor := True\<rparr>)\<rparr>"
  have ctor: "cordeAnchor_ctor (Some 0) (Some 0) (Some 0) (btVector3 1 3 3) (example_world 1 2 0) =
      Inr (a0, w1)"
    unfolding a0_def w1_def by (rule cordeAnchor_ctor_valid [OF example_scene(3,4)])
  have ptrs: "attachedBody a0 = Some 0" "m_attachedElement a0 = Some 0"
    by (simp_all add: a0_def)
  have live1: "bodies w1 0 = Some (example_body 1)"
    "elements w1 0 = Some ((example_node 2 0)\<lparr>isAnchor := True\<rparr>)"
    by (simp_all add: w1_def example_world_def)
  from do_event_valid(1) [OF ptrs live1, of "1 / 2"]
  obtain w2 B2 E2 where step1: "do_event False (Solve (1 / 2)) (a0, w1) = Inr (a0, w2)"
    and live2: "bodies w2 0 = Some B2" "elements w2 0 = Some E2"
    by blast
  have step2: "do_event False GetWorldPosition (a0, w2) = Inr (a0, w2)"
    by (rule do_event_valid(2) [OF ptrs live2])
  have step3: "do_event False (Elsewhere example_move) (a0, w2) = Inr (a0, example_move w2)"
    by simp
  have live3: "bodies (example_move w2) 0 =
      Some (B2\<lparr>m_worldTransform := \<lparr>m_basis = transpose3 quarter_turn, m_origin = btVector3 4 5 6\<rparr>\<rparr>)"
    "elements (example_move w2) 0 = Some E2"
    using live2 by (simp_all add: example_move_def)
  have step4: "do_event False GetRelativePosition (a0, example_move w2) = Inr (a0, example_move w2)"
    by (rule do_event_valid(3) [OF ptrs live3])
  from do_event_valid(1) [OF ptrs live3, of "1 / 4"]
  obtain w5 where step5: "do_event False (Solve (1 / 4)) (a0, example_move w2) = Inr (a0, w5)"
    by blast
  have run: "run_events False
       [Solve (1 / 2), GetWorldPosition, Elsewhere example_move, GetRelativePosition, Solve (1 / 4)]
       (a0, w1) = Inr (a0, w5)"
    by (simp only: run_events.simps step1 step2 step3 step4 step5 sum.case)
  from restOffset_fixed [OF example_scene(3) ctor run]
  have "attachedRelativeOriginalPosition a0 =
      transform_apply (transform_inverse (getWorldTransform (example_body 1))) (btVector3 1 3 3)"
    by blast
  then have "attachedRelativeOriginalPosition a0 = btVector3 1 0 0"
    by (simp add: getWorldTransform_def example_body_def quarter_turn_def transform_apply_def
        transform_inverse_def Let_def transpose3_def mat_vec_def dot_def
        plus_btVector3_def uminus_btVector3_def)
  with ctor run show ?thesis
    by blast
qed

section \<open>Stepping the data manager\<close>

text \<open>
  C10. \<^verbatim>\<open>tgDataManager::step(dt)\<close> throws \<^verbatim>\<open>std::invalid_argument\<close> if and only if
  \<open>dt \<le> 0\<close>, and, throwing or not, leaves the sensors, sensor infos and senseables as
  they were.
\<close>

theorem tgDataManager_step_throws_iff:
  "(fst (tgDataManager_step dt m) = Inl (InvalidArgument ''dt is not positive'') \<longleftrightarrow> dt \<le> 0) \<and>
   (fst (tgDataManager_step dt m) = Inr () \<longleftrightarrow> 0 < dt) \<and>
   snd (tgDataManager_step dt m) = m"
  by (simp add: tgDataManager_step_def invariant_def)

end
